theory Spec2Isabelle
  imports Main "HOL-Library.Word"
begin

unbundle bit_operations_syntax

section \<open>The adapter translator of dxvk-nvapi: \<open>src/sysinfo/nvapi_adapter.cpp\<close>\<close>

text \<open>
  A shallow embedding of the class \<open>NvapiAdapter\<close>. The object is a record of its member
  variables; every accessor is a function of that record; \<open>Initialize\<close> is a function of the
  outside world (the DXGI adapter, the Vulkan loader, the driver's answers, the process
  environment), of the object and of the caller's output vector, and returns how the call
  ended together with the object, the vector and the diagnostics written up to that point.
  Unsigned 32-bit and 64-bit quantities are machine words, so every shift, sum and narrowing
  conversion wraps as the C++ does.
\<close>

subsection \<open>Vulkan types, constants and macros\<close>

type_synonym u32 = "32 word"
type_synonym u64 = "64 word"

text \<open>
  Modelled from the spec: the Vulkan headers are not part of the sources. The spec speaks of
  a generic packed-integer convention with bit-field boundaries; the layout below is the
  one of \<open>vulkan_core.h\<close> (\<open>VK_MAKE_VERSION\<close>, \<open>VK_VERSION_MAJOR\<close>, \<open>VK_VERSION_MINOR\<close>,
  \<open>VK_VERSION_PATCH\<close>): ten bits of major, ten bits of minor, twelve bits of patch.
\<close>

definition VK_MAKE_VERSION :: "u32 \<Rightarrow> u32 \<Rightarrow> u32 \<Rightarrow> u32" where
  "VK_MAKE_VERSION major minor patch = push_bit 22 major OR push_bit 12 minor OR patch"

definition VK_VERSION_MAJOR :: "u32 \<Rightarrow> u32" where
  "VK_VERSION_MAJOR version = drop_bit 22 version"

definition VK_VERSION_MINOR :: "u32 \<Rightarrow> u32" where
  "VK_VERSION_MINOR version = drop_bit 12 version AND 0x3ff"

definition VK_VERSION_PATCH :: "u32 \<Rightarrow> u32" where
  "VK_VERSION_PATCH version = version AND 0xfff"

text \<open>
  Modelled from the spec: enumerators and extension names of the Vulkan headers that the
  source file uses by name. The device types are those the spec lists (other, integrated,
  discrete, virtual, cpu) with the numeric values of \<open>VkPhysicalDeviceType\<close>; the extension
  names are the strings the comments of \<open>GetArchitectureId\<close> spell out.
\<close>

definition VK_SUCCESS :: int where
  "VK_SUCCESS = 0"

definition VK_DRIVER_ID_NVIDIA_PROPRIETARY :: u32 where
  "VK_DRIVER_ID_NVIDIA_PROPRIETARY = 4"

definition VK_PHYSICAL_DEVICE_TYPE_OTHER :: u32 where
  "VK_PHYSICAL_DEVICE_TYPE_OTHER = 0"

definition VK_PHYSICAL_DEVICE_TYPE_INTEGRATED_GPU :: u32 where
  "VK_PHYSICAL_DEVICE_TYPE_INTEGRATED_GPU = 1"

definition VK_PHYSICAL_DEVICE_TYPE_DISCRETE_GPU :: u32 where
  "VK_PHYSICAL_DEVICE_TYPE_DISCRETE_GPU = 2"

definition VK_PHYSICAL_DEVICE_TYPE_VIRTUAL_GPU :: u32 where
  "VK_PHYSICAL_DEVICE_TYPE_VIRTUAL_GPU = 3"

definition VK_PHYSICAL_DEVICE_TYPE_CPU :: u32 where
  "VK_PHYSICAL_DEVICE_TYPE_CPU = 4"

definition VK_MEMORY_HEAP_DEVICE_LOCAL_BIT :: u32 where
  "VK_MEMORY_HEAP_DEVICE_LOCAL_BIT = 1"

definition VK_EXT_PCI_BUS_INFO_EXTENSION_NAME :: string where
  "VK_EXT_PCI_BUS_INFO_EXTENSION_NAME = ''VK_EXT_pci_bus_info''"

definition VK_KHR_DRIVER_PROPERTIES_EXTENSION_NAME :: string where
  "VK_KHR_DRIVER_PROPERTIES_EXTENSION_NAME = ''VK_KHR_driver_properties''"

definition VK_KHR_FRAGMENT_SHADING_RATE_EXTENSION_NAME :: string where
  "VK_KHR_FRAGMENT_SHADING_RATE_EXTENSION_NAME = ''VK_KHR_fragment_shading_rate''"

definition VK_NV_SHADING_RATE_IMAGE_EXTENSION_NAME :: string where
  "VK_NV_SHADING_RATE_IMAGE_EXTENSION_NAME = ''VK_NV_shading_rate_image''"

definition VK_NVX_IMAGE_VIEW_HANDLE_EXTENSION_NAME :: string where
  "VK_NVX_IMAGE_VIEW_HANDLE_EXTENSION_NAME = ''VK_NVX_image_view_handle''"

definition VK_NV_CLIP_SPACE_W_SCALING_EXTENSION_NAME :: string where
  "VK_NV_CLIP_SPACE_W_SCALING_EXTENSION_NAME = ''VK_NV_clip_space_w_scaling''"

definition VK_NV_VIEWPORT_ARRAY2_EXTENSION_NAME :: string where
  "VK_NV_VIEWPORT_ARRAY2_EXTENSION_NAME = ''VK_NV_viewport_array2''"

text \<open>The fields of the Vulkan structures that the source file reads.\<close>

record VkPhysicalDeviceProperties =
  deviceName :: string
  vendorID :: u32
  deviceID :: u32
  driverVersion :: u32
  deviceType :: u32

text \<open>
  \<open>deviceLUID\<close> is an array of \<open>VK_LUID_SIZE = 8\<close> bytes and the caller's \<open>LUID\<close> is eight
  bytes wide too: both are one 64-bit value here. \<open>deviceLUIDValid\<close> is a \<open>VkBool32\<close>.
\<close>

record VkPhysicalDeviceIDProperties =
  deviceLUID :: u64
  deviceLUIDValid :: u32

record VkPhysicalDevicePCIBusInfoPropertiesEXT =
  pciBus :: u32

record VkPhysicalDeviceDriverPropertiesKHR =
  driverID :: u32

record VkPhysicalDeviceFragmentShadingRatePropertiesKHR =
  primitiveFragmentShadingRateWithMultipleViewports :: u32

record VkMemoryHeap =
  size_heap :: u64
  flags :: u32

text \<open>
  \<open>memoryHeaps\<close> holds the first \<open>memoryHeapCount\<close> entries of the C array, in index order;
  the count is the length of the list.
\<close>

record VkPhysicalDeviceMemoryProperties =
  memoryHeaps :: "VkMemoryHeap list"

definition memoryHeapCount :: "VkPhysicalDeviceMemoryProperties \<Rightarrow> nat" where
  "memoryHeapCount mp = length (memoryHeaps mp)"

text \<open>Modelled from the spec: the enumeration \<open>NV_GPU_ARCHITECTURE_ID\<close> of the NVAPI
  header, which is not part of the sources; only the six generations the ladder returns.\<close>

datatype NV_GPU_ARCHITECTURE_ID =
    NV_GPU_ARCHITECTURE_GK100
  | NV_GPU_ARCHITECTURE_GM200
  | NV_GPU_ARCHITECTURE_GP100
  | NV_GPU_ARCHITECTURE_GV100
  | NV_GPU_ARCHITECTURE_TU100
  | NV_GPU_ARCHITECTURE_GA100

subsection \<open>The object\<close>

record NvapiAdapter =
  m_deviceExtensions :: "string set"
  m_deviceProperties :: VkPhysicalDeviceProperties
  m_deviceIdProperties :: VkPhysicalDeviceIDProperties
  m_devicePciBusProperties :: VkPhysicalDevicePCIBusInfoPropertiesEXT
  m_memoryProperties :: VkPhysicalDeviceMemoryProperties
  m_deviceDriverProperties :: VkPhysicalDeviceDriverPropertiesKHR
  m_deviceFragmentShadingRateProperties :: VkPhysicalDeviceFragmentShadingRatePropertiesKHR
  m_vkDriverVersion :: u32
  m_deviceIdOverride :: u32
  m_subsystemIdOverride :: u32
  m_driverVersionOverride :: u32

subsection \<open>The accessors\<close>

definition isVkDeviceExtensionSupported :: "NvapiAdapter \<Rightarrow> string \<Rightarrow> bool" where
  "isVkDeviceExtensionSupported this name = (name \<in> m_deviceExtensions this)"

definition GetDeviceName :: "NvapiAdapter \<Rightarrow> string" where
  "GetDeviceName this = deviceName (m_deviceProperties this)"

definition GetDriverVersion :: "NvapiAdapter \<Rightarrow> u32" where
  "GetDriverVersion this =
     (if m_driverVersionOverride this > 0
      then m_driverVersionOverride this
      else VK_VERSION_MAJOR (m_vkDriverVersion this) * 100 +
             min (VK_VERSION_MINOR (m_vkDriverVersion this)) 99)"

definition GetDriverId :: "NvapiAdapter \<Rightarrow> u32" where
  "GetDriverId this = driverID (m_deviceDriverProperties this)"

definition GetDeviceId :: "NvapiAdapter \<Rightarrow> u32" where
  "GetDeviceId this =
     (if m_deviceIdOverride this > 0
      then m_deviceIdOverride this
      else push_bit 16 (deviceID (m_deviceProperties this)) + vendorID (m_deviceProperties this))"

definition GetSubsystemId :: "NvapiAdapter \<Rightarrow> u32" where
  "GetSubsystemId this = m_subsystemIdOverride this"

definition GetGpuType :: "NvapiAdapter \<Rightarrow> u32" where
  "GetGpuType this =
     (let vkDeviceType = deviceType (m_deviceProperties this)
      in if vkDeviceType = VK_PHYSICAL_DEVICE_TYPE_DISCRETE_GPU
            \<or> vkDeviceType = VK_PHYSICAL_DEVICE_TYPE_INTEGRATED_GPU
         then vkDeviceType
         else VK_PHYSICAL_DEVICE_TYPE_OTHER)"

definition GetBusId :: "NvapiAdapter \<Rightarrow> u32" where
  "GetBusId this = pciBus (m_devicePciBusProperties this)"

text \<open>
  The loop of \<open>GetVRamSize\<close>, from index \<open>i\<close>. \<open>heap.size / 1024\<close> is a 64-bit quotient; the
  function returns \<open>uint32_t\<close>, so the quotient is narrowed to its low 32 bits (\<open>ucast\<close>).
\<close>

function GetVRamSize_loop :: "VkPhysicalDeviceMemoryProperties \<Rightarrow> nat \<Rightarrow> u32" where
  "GetVRamSize_loop mp i =
     (if i < memoryHeapCount mp
      then (let heap = memoryHeaps mp ! i
            in if flags heap AND VK_MEMORY_HEAP_DEVICE_LOCAL_BIT \<noteq> 0
               then ucast (size_heap heap div 1024)
               else GetVRamSize_loop mp (i + 1))
      else 0)"
  by pat_completeness auto
termination
  by (relation "measure (\<lambda>(mp, i). memoryHeapCount mp - i)") auto

declare GetVRamSize_loop.simps [simp del]

definition GetVRamSize :: "NvapiAdapter \<Rightarrow> u32" where
  "GetVRamSize this = GetVRamSize_loop (m_memoryProperties this) 0"

text \<open>
  \<open>GetLUID\<close> writes through the caller's pointer: the model takes the buffer's content and
  returns the result together with the content after the call.
\<close>

definition GetLUID :: "NvapiAdapter \<Rightarrow> u64 \<Rightarrow> bool \<times> u64" where
  "GetLUID this luid =
     (if deviceLUIDValid (m_deviceIdProperties this) = 0
      then (False, luid)
      else (True, deviceLUID (m_deviceIdProperties this)))"

definition GetArchitectureId :: "NvapiAdapter \<Rightarrow> NV_GPU_ARCHITECTURE_ID" where
  "GetArchitectureId this =
     (if isVkDeviceExtensionSupported this VK_KHR_FRAGMENT_SHADING_RATE_EXTENSION_NAME
         \<and> primitiveFragmentShadingRateWithMultipleViewports
              (m_deviceFragmentShadingRateProperties this) \<noteq> 0
      then NV_GPU_ARCHITECTURE_GA100
      else if isVkDeviceExtensionSupported this VK_NV_SHADING_RATE_IMAGE_EXTENSION_NAME
      then NV_GPU_ARCHITECTURE_TU100
      else if isVkDeviceExtensionSupported this VK_NVX_IMAGE_VIEW_HANDLE_EXTENSION_NAME
      then NV_GPU_ARCHITECTURE_GV100
      else if isVkDeviceExtensionSupported this VK_NV_CLIP_SPACE_W_SCALING_EXTENSION_NAME
      then NV_GPU_ARCHITECTURE_GP100
      else if isVkDeviceExtensionSupported this VK_NV_VIEWPORT_ARRAY2_EXTENSION_NAME
      then NV_GPU_ARCHITECTURE_GM200
      else NV_GPU_ARCHITECTURE_GK100)"

subsection \<open>What \<open>Initialize\<close> sees of the outside\<close>

text \<open>
  Modelled from the spec: \<open>std::stoul\<close> of the C++ standard library, called with its default
  base 10; it is not part of the sources, the spec says the overrides are parsed as unsigned
  base-10 integers. As \<open>strtoul\<close> does, it skips leading white space, takes one optional
  sign, and converts the longest run of decimal digits that follows; whatever comes after the
  digits is left unread. No digit at that place is \<open>std::invalid_argument\<close>; a run
  whose value exceeds \<open>ULONG_MAX\<close> is \<open>std::out_of_range\<close>; a minus sign negates
  the value in the unsigned type. \<open>unsigned long\<close> has 32 bits on the Windows targets the
  library is built for.
\<close>

datatype cxx_exception = invalid_argument | out_of_range

definition ULONG_MAX :: nat where
  "ULONG_MAX = 4294967295"

definition isspace :: "char \<Rightarrow> bool" where
  "isspace c = (c \<in> set [CHR '' '', CHR 0x09, CHR 0x0A, CHR 0x0B, CHR 0x0C, CHR 0x0D])"

definition isdigit :: "char \<Rightarrow> bool" where
  "isdigit c = (c \<in> set ''0123456789'')"

definition digit_value :: "char \<Rightarrow> nat" where
  "digit_value c = of_char c - 48"

definition decimal_value :: "string \<Rightarrow> nat" where
  "decimal_value ds = foldl (\<lambda>acc c. 10 * acc + digit_value c) 0 ds"

definition stoul :: "string \<Rightarrow> cxx_exception + u32" where
  "stoul str =
     (let s1 = dropWhile isspace str;
          negative = (s1 \<noteq> [] \<and> hd s1 = CHR ''-'');
          s2 = (if s1 \<noteq> [] \<and> (hd s1 = CHR ''-'' \<or> hd s1 = CHR ''+'') then tl s1 else s1);
          digits = takeWhile isdigit s2
      in if digits = [] then Inl invalid_argument
         else if decimal_value digits > ULONG_MAX then Inl out_of_range
         else Inr (if negative then - of_nat (decimal_value digits)
                   else of_nat (decimal_value digits)))"

text \<open>The names of the three override variables (lines 8 to 10 of the source).\<close>

definition deviceIdEnvName :: string where
  "deviceIdEnvName = ''DXVK_NVAPI_DEVICE_ID''"

definition subsystemIdEnvName :: string where
  "subsystemIdEnvName = ''DXVK_NVAPI_SUBSYSTEM_ID''"

definition driverVersionEnvName :: string where
  "driverVersionEnvName = ''DXVK_NVAPI_DRIVER_VERSION''"

text \<open>
  A DXGI output is known by a number; an \<open>NvapiOutput\<close> is built from the output it was
  initialised with.
\<close>

type_synonym IDXGIOutput = nat

datatype NvapiOutput = NvapiOutput IDXGIOutput

text \<open>
  What the physical device reports when \<open>vkGetPhysicalDeviceProperties2\<close> and
  \<open>vkGetPhysicalDeviceMemoryProperties2\<close> are called: the core properties and the content
  the driver writes into each extension structure that is chained to the request.
\<close>

record vk_device =
  dev_properties :: VkPhysicalDeviceProperties
  dev_idProperties :: VkPhysicalDeviceIDProperties
  dev_pciBusProperties :: VkPhysicalDevicePCIBusInfoPropertiesEXT
  dev_driverProperties :: VkPhysicalDeviceDriverPropertiesKHR
  dev_fragmentShadingRateProperties :: VkPhysicalDeviceFragmentShadingRatePropertiesKHR
  dev_memoryProperties :: VkPhysicalDeviceMemoryProperties

text \<open>
  The answers of everything \<open>Initialize\<close> calls:
  \<^item> \<open>w_QueryInterface\<close>: the \<open>HRESULT\<close> of the query for \<open>IDXGIVkInteropAdapter\<close>;
  \<^item> \<open>w_LoadLibraryA\<close>: whether \<open>vulkan-1.dll\<close> loads (a null module otherwise), and
    \<open>w_GetLastError\<close> the error code then;
  \<^item> \<open>w_GetProcAddress\<close>: whether the module exports a symbol (a null pointer otherwise);
  \<^item> \<open>w_enumerateCountResult\<close>, \<open>w_enumerateResult\<close>: the \<open>VkResult\<close> of the first and of
    the second call of \<open>vkEnumerateDeviceExtensionProperties\<close>, and \<open>w_extensions\<close> the
    extension names in the vector after the second call;
  \<^item> \<open>w_vkGetInstanceProcAddr\<close>: whether the instance resolves a command name;
  \<^item> \<open>w_device\<close>: what the device reports;
  \<^item> \<open>w_outputs\<close>: the outputs of the DXGI adapter, in enumeration order;
  \<^item> \<open>w_getEnvVariable\<close>: \<open>env::getEnvVariable\<close>, empty for a variable that is not set.
\<close>

record world =
  w_QueryInterface :: u32
  w_LoadLibraryA :: bool
  w_GetLastError :: u32
  w_GetProcAddress :: "string \<Rightarrow> bool"
  w_enumerateCountResult :: int
  w_enumerateResult :: int
  w_extensions :: "string list"
  w_vkGetInstanceProcAddr :: "string \<Rightarrow> bool"
  w_device :: vk_device
  w_outputs :: "IDXGIOutput list"
  w_getEnvVariable :: "string \<Rightarrow> string"

text \<open>The macro \<open>FAILED\<close> of the Windows headers: an \<open>HRESULT\<close> is a signed 32-bit value,
  negative on failure.\<close>

definition FAILED :: "u32 \<Rightarrow> bool" where
  "FAILED hr = (sint hr < 0)"

text \<open>\<open>IDXGIAdapter::EnumOutputs\<close>: the output at an index, \<open>None\<close> for
  \<open>DXGI_ERROR_NOT_FOUND\<close> past the last one.\<close>

definition EnumOutputs :: "world \<Rightarrow> nat \<Rightarrow> IDXGIOutput option" where
  "EnumOutputs w i = (if i < length (w_outputs w) then Some (w_outputs w ! i) else None)"

text \<open>The diagnostics: one constructor for each \<open>log::write\<close> and each line on \<open>std::cout\<close>.\<close>

datatype log_event =
    Log_QueryInterfaceFailed
  | Log_LoadLibraryFailed u32
  | Log_Device string u32 u32 u32
  | Stdout_DeviceId u32 u32
  | Stdout_SubsystemId u32 u32
  | Log_DriverVersion string u32

text \<open>
  How a call of \<open>Initialize\<close> ends: it returns a boolean, or it calls through a null function
  pointer (undefined behaviour; the lookups of lines 31 to 39 and 87 to 100 are never
  compared with null), or an exception of \<open>std::stoul\<close> leaves it.
\<close>

datatype outcome = Returned bool | NullCall | Threw cxx_exception

record init_result =
  outcome :: outcome
  adapter :: NvapiAdapter
  outputs :: "NvapiOutput list"
  logged :: "log_event list"

subsection \<open>\<open>Initialize\<close>\<close>

text \<open>Lines 121 to 126: one new \<open>NvapiOutput\<close> is pushed for each index until the
  enumeration reports \<open>DXGI_ERROR_NOT_FOUND\<close>.\<close>

function EnumOutputs_loop :: "world \<Rightarrow> nat \<Rightarrow> NvapiOutput list \<Rightarrow> NvapiOutput list" where
  "EnumOutputs_loop w i outs =
     (case EnumOutputs w i of
        None \<Rightarrow> outs
      | Some dxgiOutput \<Rightarrow> EnumOutputs_loop w (i + 1) (outs @ [NvapiOutput dxgiOutput]))"
  by pat_completeness auto
termination
  by (relation "measure (\<lambda>(w, i, outs). length (w_outputs w) - i)")
     (auto simp: EnumOutputs_def split: if_splits)

declare EnumOutputs_loop.simps [simp del]

text \<open>
  Lines 61 to 92: the request chains the structure of each extension found in the support
  set, and the identifier properties always; the call fills what is chained and the core
  properties are copied. (The \<open>sType\<close> and \<open>pNext\<close> fields only build the chain.)
\<close>

definition query_properties :: "world \<Rightarrow> NvapiAdapter \<Rightarrow> NvapiAdapter" where
  "query_properties w this =
     (let d = w_device w;
          a1 = (if isVkDeviceExtensionSupported this VK_EXT_PCI_BUS_INFO_EXTENSION_NAME
                then this\<lparr>m_devicePciBusProperties := dev_pciBusProperties d\<rparr> else this);
          a2 = (if isVkDeviceExtensionSupported this VK_KHR_DRIVER_PROPERTIES_EXTENSION_NAME
                then a1\<lparr>m_deviceDriverProperties := dev_driverProperties d\<rparr> else a1);
          a3 = (if isVkDeviceExtensionSupported this VK_KHR_FRAGMENT_SHADING_RATE_EXTENSION_NAME
                then a2\<lparr>m_deviceFragmentShadingRateProperties :=
                          dev_fragmentShadingRateProperties d\<rparr> else a2)
      in a3\<lparr>m_deviceIdProperties := dev_idProperties d, m_deviceProperties := dev_properties d\<rparr>)"

text \<open>Lines 105 to 112: the driver version is re-packed for the NVIDIA proprietary driver and
  kept as it is for every other one.\<close>

definition normalize_driver_version :: "NvapiAdapter \<Rightarrow> NvapiAdapter" where
  "normalize_driver_version this =
     (if GetDriverId this = VK_DRIVER_ID_NVIDIA_PROPRIETARY
      then this\<lparr>m_vkDriverVersion :=
             VK_MAKE_VERSION
               (VK_VERSION_MAJOR (driverVersion (m_deviceProperties this)))
               (drop_bit 2 (VK_VERSION_MINOR (drop_bit 0 (driverVersion (m_deviceProperties this)))))
               (drop_bit 4 (VK_VERSION_PATCH (drop_bit 2 (driverVersion (m_deviceProperties this)))))\<rparr>
      else this\<lparr>m_vkDriverVersion := driverVersion (m_deviceProperties this)\<rparr>)"

definition device_log_line :: "NvapiAdapter \<Rightarrow> log_event" where
  "device_log_line this =
     Log_Device (deviceName (m_deviceProperties this))
       (VK_VERSION_MAJOR (m_vkDriverVersion this))
       (VK_VERSION_MINOR (m_vkDriverVersion this))
       (VK_VERSION_PATCH (m_vkDriverVersion this))"

text \<open>
  Lines 130 to 148, one definition for each variable. Each takes the object and the
  diagnostics so far; \<open>Inl\<close> carries the exception of \<open>std::stoul\<close> with the object and
  the diagnostics at the throw. The source calls \<open>stoul\<close> twice on the same string (once
  for the message, once for the assignment); the function is pure, so the second call
  returns what the first did. For the driver version the message is written before the
  string is converted.
\<close>

definition override_deviceId ::
  "world \<Rightarrow> NvapiAdapter \<times> log_event list
     \<Rightarrow> (cxx_exception \<times> NvapiAdapter \<times> log_event list) + (NvapiAdapter \<times> log_event list)" where
  "override_deviceId w st =
     (let this = fst st; lg = snd st; deviceId = w_getEnvVariable w deviceIdEnvName
      in if deviceId \<noteq> []
         then (case stoul deviceId of
                 Inl e \<Rightarrow> Inl (e, this, lg)
               | Inr v \<Rightarrow> Inr (this\<lparr>m_deviceIdOverride := v\<rparr>,
                               lg @ [Stdout_DeviceId v (GetDeviceId this)]))
         else Inr (this, lg))"

definition override_subsystemId ::
  "world \<Rightarrow> NvapiAdapter \<times> log_event list
     \<Rightarrow> (cxx_exception \<times> NvapiAdapter \<times> log_event list) + (NvapiAdapter \<times> log_event list)" where
  "override_subsystemId w st =
     (let this = fst st; lg = snd st; subsystemId = w_getEnvVariable w subsystemIdEnvName
      in if subsystemId \<noteq> []
         then (case stoul subsystemId of
                 Inl e \<Rightarrow> Inl (e, this, lg)
               | Inr v \<Rightarrow> Inr (this\<lparr>m_subsystemIdOverride := v\<rparr>,
                               lg @ [Stdout_SubsystemId v (GetSubsystemId this)]))
         else Inr (this, lg))"

definition override_driverVersion ::
  "world \<Rightarrow> NvapiAdapter \<times> log_event list
     \<Rightarrow> (cxx_exception \<times> NvapiAdapter \<times> log_event list) + (NvapiAdapter \<times> log_event list)" where
  "override_driverVersion w st =
     (let this = fst st; lg = snd st; driverVersion = w_getEnvVariable w driverVersionEnvName
      in if driverVersion \<noteq> []
         then (let lg1 = lg @ [Log_DriverVersion driverVersion (GetDriverVersion this)]
               in case stoul driverVersion of
                    Inl e \<Rightarrow> Inl (e, this, lg1)
                  | Inr v \<Rightarrow> Inr (this\<lparr>m_driverVersionOverride := v\<rparr>, lg1))
         else Inr (this, lg))"

text \<open>Lines 105 to 150, reached once both property queries are done: \<open>this\<close> holds the
  snapshot, \<open>outputs0\<close> is the caller's vector as it was passed in.\<close>

definition Initialize_finish :: "world \<Rightarrow> NvapiAdapter \<Rightarrow> NvapiOutput list \<Rightarrow> init_result" where
  "Initialize_finish w this outputs0 =
     (let a = normalize_driver_version this;
          lg = [device_log_line a];
          outs = EnumOutputs_loop w 0 outputs0
      in case override_deviceId w (a, lg) of
           Inl (e, a', lg') \<Rightarrow> \<lparr>outcome = Threw e, adapter = a', outputs = outs, logged = lg'\<rparr>
         | Inr st1 \<Rightarrow>
             (case override_subsystemId w st1 of
                Inl (e, a', lg') \<Rightarrow> \<lparr>outcome = Threw e, adapter = a', outputs = outs, logged = lg'\<rparr>
              | Inr st2 \<Rightarrow>
                  (case override_driverVersion w st2 of
                     Inl (e, a', lg') \<Rightarrow>
                       \<lparr>outcome = Threw e, adapter = a', outputs = outs, logged = lg'\<rparr>
                   | Inr (a', lg') \<Rightarrow>
                       \<lparr>outcome = Returned True, adapter = a', outputs = outs, logged = lg'\<rparr>)))"

text \<open>
  The whole of \<open>Initialize\<close> (lines 16 to 151), every exit in the order of the source. The
  two enumeration failures return without a diagnostic. A null function pointer is called
  at line 47 (\<open>vkEnumerateDeviceExtensionProperties\<close>), at line 89 (\<open>vkGetInstanceProcAddr\<close>),
  at line 91 and at line 102 (what \<open>vkGetInstanceProcAddr\<close> returned).
\<close>

definition Initialize :: "world \<Rightarrow> NvapiAdapter \<Rightarrow> NvapiOutput list \<Rightarrow> init_result" where
  "Initialize w this outputs0 =
     (if FAILED (w_QueryInterface w)
      then \<lparr>outcome = Returned False, adapter = this, outputs = outputs0,
            logged = [Log_QueryInterfaceFailed]\<rparr>
      else if \<not> w_LoadLibraryA w
      then \<lparr>outcome = Returned False, adapter = this, outputs = outputs0,
            logged = [Log_LoadLibraryFailed (w_GetLastError w)]\<rparr>
      else if \<not> w_GetProcAddress w ''vkEnumerateDeviceExtensionProperties''
      then \<lparr>outcome = NullCall, adapter = this, outputs = outputs0, logged = []\<rparr>
      else if w_enumerateCountResult w \<noteq> VK_SUCCESS
      then \<lparr>outcome = Returned False, adapter = this, outputs = outputs0, logged = []\<rparr>
      else if w_enumerateResult w \<noteq> VK_SUCCESS
      then \<lparr>outcome = Returned False, adapter = this, outputs = outputs0, logged = []\<rparr>
      else
        (let a1 = this\<lparr>m_deviceExtensions := fold insert (w_extensions w) (m_deviceExtensions this)\<rparr>
         in if \<not> w_GetProcAddress w ''vkGetInstanceProcAddr''
            then \<lparr>outcome = NullCall, adapter = a1, outputs = outputs0, logged = []\<rparr>
            else if \<not> w_vkGetInstanceProcAddr w ''vkGetPhysicalDeviceProperties2''
            then \<lparr>outcome = NullCall, adapter = a1, outputs = outputs0, logged = []\<rparr>
            else
              (let a2 = query_properties w a1
               in if \<not> w_vkGetInstanceProcAddr w ''vkGetPhysicalDeviceMemoryProperties2''
                  then \<lparr>outcome = NullCall, adapter = a2, outputs = outputs0, logged = []\<rparr>
                  else Initialize_finish w
                         (a2\<lparr>m_memoryProperties := dev_memoryProperties (w_device w)\<rparr>)
                         outputs0)))"

text \<open>The calls before line 105 all succeed: no early return and no null pointer.\<close>

definition queries_succeed :: "world \<Rightarrow> bool" where
  "queries_succeed w =
     (\<not> FAILED (w_QueryInterface w) \<and> w_LoadLibraryA w
      \<and> w_GetProcAddress w ''vkEnumerateDeviceExtensionProperties''
      \<and> w_enumerateCountResult w = VK_SUCCESS \<and> w_enumerateResult w = VK_SUCCESS
      \<and> w_GetProcAddress w ''vkGetInstanceProcAddr''
      \<and> w_vkGetInstanceProcAddr w ''vkGetPhysicalDeviceProperties2''
      \<and> w_vkGetInstanceProcAddr w ''vkGetPhysicalDeviceMemoryProperties2'')"

text \<open>The object after lines 54 to 103 when no call failed: the extension names are in
  the support set, the chained structures, the core properties and the memory properties
  are copied.\<close>

definition snapshot :: "world \<Rightarrow> NvapiAdapter \<Rightarrow> NvapiAdapter" where
  "snapshot w this =
     (query_properties w
        (this\<lparr>m_deviceExtensions := fold insert (w_extensions w) (m_deviceExtensions this)\<rparr>))
       \<lparr>m_memoryProperties := dev_memoryProperties (w_device w)\<rparr>"

text \<open>
  The words of claim C10, "a string that parses as an unsigned base-10 integer", taken by
  themselves: a non-empty run of decimal digits whose value an \<open>unsigned long\<close> holds. It
  is compared below with what \<open>stoul\<close> accepts.
\<close>

definition unsigned_base10_integer :: "string \<Rightarrow> bool" where
  "unsigned_base10_integer s = (s \<noteq> [] \<and> list_all isdigit s \<and> decimal_value s \<le> ULONG_MAX)"

subsection \<open>A concrete device, object and world\<close>

text \<open>
  The device of the comments in lines 8 to 10 of the source: device \<open>1b80\<close> of vendor
  \<open>10de\<close>, driver 455.89 in the NVIDIA packing (\<open>455 * 2^22 + 89 * 2^14\<close>), three memory
  heaps of which only the second is device-local, with 8589934592 bytes.
\<close>

definition example_heaps :: "VkMemoryHeap list" where
  "example_heaps =
     [\<lparr>size_heap = 268435456, flags = 0\<rparr>,
      \<lparr>size_heap = 8589934592, flags = 1\<rparr>,
      \<lparr>size_heap = 17179869184, flags = 0\<rparr>]"

definition example_device :: vk_device where
  "example_device =
     \<lparr>dev_properties =
        \<lparr>deviceName = ''GeForce GTX 1080'', vendorID = 0x10DE, deviceID = 0x1B80,
         driverVersion = 1909866496, deviceType = 2\<rparr>,
      dev_idProperties = \<lparr>deviceLUID = 0xC0FFEE, deviceLUIDValid = 1\<rparr>,
      dev_pciBusProperties = \<lparr>pciBus = 1\<rparr>,
      dev_driverProperties = \<lparr>driverID = 4\<rparr>,
      dev_fragmentShadingRateProperties =
        \<lparr>primitiveFragmentShadingRateWithMultipleViewports = 0\<rparr>,
      dev_memoryProperties = \<lparr>memoryHeaps = example_heaps\<rparr>\<rparr>"

text \<open>A second device, which differs in the device identifier (\<open>2204\<close>).\<close>

definition other_device :: vk_device where
  "other_device =
     example_device\<lparr>dev_properties := (dev_properties example_device)\<lparr>deviceID := 0x2204\<rparr>\<rparr>"

text \<open>An object before \<open>Initialize\<close>: no extension, every number zero (the spec: the
  overrides default to zero, the queryable state is empty).\<close>

definition fresh_adapter :: NvapiAdapter where
  "fresh_adapter =
     \<lparr>m_deviceExtensions = {},
      m_deviceProperties =
        \<lparr>deviceName = [], vendorID = 0, deviceID = 0, driverVersion = 0, deviceType = 0\<rparr>,
      m_deviceIdProperties = \<lparr>deviceLUID = 0, deviceLUIDValid = 0\<rparr>,
      m_devicePciBusProperties = \<lparr>pciBus = 0\<rparr>,
      m_memoryProperties = \<lparr>memoryHeaps = []\<rparr>,
      m_deviceDriverProperties = \<lparr>driverID = 0\<rparr>,
      m_deviceFragmentShadingRateProperties =
        \<lparr>primitiveFragmentShadingRateWithMultipleViewports = 0\<rparr>,
      m_vkDriverVersion = 0,
      m_deviceIdOverride = 0,
      m_subsystemIdOverride = 0,
      m_driverVersionOverride = 0\<rparr>"

text \<open>The object holding the snapshot of the example device, with no override.\<close>

definition example_adapter :: NvapiAdapter where
  "example_adapter =
     \<lparr>m_deviceExtensions =
        {''VK_EXT_pci_bus_info'', ''VK_KHR_driver_properties'',
         ''VK_NV_clip_space_w_scaling'', ''VK_NV_viewport_array2''},
      m_deviceProperties = dev_properties example_device,
      m_deviceIdProperties = dev_idProperties example_device,
      m_devicePciBusProperties = dev_pciBusProperties example_device,
      m_memoryProperties = dev_memoryProperties example_device,
      m_deviceDriverProperties = dev_driverProperties example_device,
      m_deviceFragmentShadingRateProperties =
        dev_fragmentShadingRateProperties example_device,
      m_vkDriverVersion = 1908772864,
      m_deviceIdOverride = 0,
      m_subsystemIdOverride = 0,
      m_driverVersionOverride = 0\<rparr>"

text \<open>A world in which every call succeeds, the adapter has two outputs and no override
  variable is set; \<open>with_env\<close> sets one variable in it.\<close>

definition example_world :: world where
  "example_world =
     \<lparr>w_QueryInterface = 0,
      w_LoadLibraryA = True,
      w_GetLastError = 0,
      w_GetProcAddress = (\<lambda>name. True),
      w_enumerateCountResult = 0,
      w_enumerateResult = 0,
      w_extensions =
        [''VK_EXT_pci_bus_info'', ''VK_KHR_driver_properties'',
         ''VK_NV_clip_space_w_scaling'', ''VK_NV_viewport_array2''],
      w_vkGetInstanceProcAddr = (\<lambda>name. True),
      w_device = example_device,
      w_outputs = [0, 1],
      w_getEnvVariable = (\<lambda>name. [])\<rparr>"

definition with_env :: "world \<Rightarrow> string \<Rightarrow> string \<Rightarrow> world" where
  "with_env w name val =
     w\<lparr>w_getEnvVariable := (\<lambda>n. if n = name then val else w_getEnvVariable w n)\<rparr>"

section \<open>The claims\<close>

subsection \<open>GPU class\<close>

text \<open>
  Claim C9. For every snapshot device type, \<open>GetGpuType\<close> returns the type unchanged when it
  is discrete or integrated, and returns the value "other" for every remaining device type,
  the virtual and the cpu type among them.
\<close>

theorem GetGpuType_normalizes:
  "(deviceType (m_deviceProperties this) = VK_PHYSICAL_DEVICE_TYPE_DISCRETE_GPU
      \<longrightarrow> GetGpuType this = VK_PHYSICAL_DEVICE_TYPE_DISCRETE_GPU)
   \<and> (deviceType (m_deviceProperties this) = VK_PHYSICAL_DEVICE_TYPE_INTEGRATED_GPU
      \<longrightarrow> GetGpuType this = VK_PHYSICAL_DEVICE_TYPE_INTEGRATED_GPU)
   \<and> (deviceType (m_deviceProperties this) \<noteq> VK_PHYSICAL_DEVICE_TYPE_DISCRETE_GPU
      \<and> deviceType (m_deviceProperties this) \<noteq> VK_PHYSICAL_DEVICE_TYPE_INTEGRATED_GPU
      \<longrightarrow> GetGpuType this = VK_PHYSICAL_DEVICE_TYPE_OTHER)
   \<and> (deviceType (m_deviceProperties this) = VK_PHYSICAL_DEVICE_TYPE_VIRTUAL_GPU
      \<longrightarrow> GetGpuType this = VK_PHYSICAL_DEVICE_TYPE_OTHER)
   \<and> (deviceType (m_deviceProperties this) = VK_PHYSICAL_DEVICE_TYPE_CPU
      \<longrightarrow> GetGpuType this = VK_PHYSICAL_DEVICE_TYPE_OTHER)"
  by (simp add: GetGpuType_def Let_def VK_PHYSICAL_DEVICE_TYPE_DISCRETE_GPU_def
      VK_PHYSICAL_DEVICE_TYPE_INTEGRATED_GPU_def VK_PHYSICAL_DEVICE_TYPE_VIRTUAL_GPU_def
      VK_PHYSICAL_DEVICE_TYPE_CPU_def)

text \<open>The example device is discrete; the same object with the type set to integrated,
  virtual, cpu and to a number outside the enumeration.\<close>

theorem GetGpuType_normalizes_witness:
  "GetGpuType example_adapter = 2
   \<and> GetGpuType (example_adapter\<lparr>m_deviceProperties :=
        (m_deviceProperties example_adapter)\<lparr>deviceType := 1\<rparr>\<rparr>) = 1
   \<and> GetGpuType (example_adapter\<lparr>m_deviceProperties :=
        (m_deviceProperties example_adapter)\<lparr>deviceType := 3\<rparr>\<rparr>) = 0
   \<and> GetGpuType (example_adapter\<lparr>m_deviceProperties :=
        (m_deviceProperties example_adapter)\<lparr>deviceType := 4\<rparr>\<rparr>) = 0
   \<and> GetGpuType (example_adapter\<lparr>m_deviceProperties :=
        (m_deviceProperties example_adapter)\<lparr>deviceType := 77\<rparr>\<rparr>) = 0"
  using GetGpuType_normalizes [of example_adapter]
    GetGpuType_normalizes [of "example_adapter\<lparr>m_deviceProperties :=
        (m_deviceProperties example_adapter)\<lparr>deviceType := 1\<rparr>\<rparr>"]
    GetGpuType_normalizes [of "example_adapter\<lparr>m_deviceProperties :=
        (m_deviceProperties example_adapter)\<lparr>deviceType := 3\<rparr>\<rparr>"]
    GetGpuType_normalizes [of "example_adapter\<lparr>m_deviceProperties :=
        (m_deviceProperties example_adapter)\<lparr>deviceType := 4\<rparr>\<rparr>"]
    GetGpuType_normalizes [of "example_adapter\<lparr>m_deviceProperties :=
        (m_deviceProperties example_adapter)\<lparr>deviceType := 77\<rparr>\<rparr>"]
  by (simp add: example_adapter_def example_device_def VK_PHYSICAL_DEVICE_TYPE_DISCRETE_GPU_def
      VK_PHYSICAL_DEVICE_TYPE_INTEGRATED_GPU_def VK_PHYSICAL_DEVICE_TYPE_VIRTUAL_GPU_def
      VK_PHYSICAL_DEVICE_TYPE_CPU_def VK_PHYSICAL_DEVICE_TYPE_OTHER_def)

subsection \<open>Locally-unique identifier\<close>

text \<open>
  Claim C8. \<open>GetLUID\<close> copies the snapshot's locally-unique identifier into the caller's
  buffer and returns success exactly when the identifier-properties structure reports the
  identifier valid; when it is not valid, \<open>GetLUID\<close> returns failure and the caller's buffer
  is what it was.
\<close>

theorem GetLUID_copies_iff_valid:
  "(deviceLUIDValid (m_deviceIdProperties this) \<noteq> 0
      \<longrightarrow> GetLUID this luid = (True, deviceLUID (m_deviceIdProperties this)))
   \<and> (deviceLUIDValid (m_deviceIdProperties this) = 0 \<longrightarrow> GetLUID this luid = (False, luid))
   \<and> (fst (GetLUID this luid) \<longleftrightarrow> deviceLUIDValid (m_deviceIdProperties this) \<noteq> 0)"
  by (simp add: GetLUID_def)

theorem GetLUID_copies_iff_valid_witness:
  "GetLUID example_adapter 5 = (True, 0xC0FFEE) \<and> GetLUID fresh_adapter 5 = (False, 5)"
  using GetLUID_copies_iff_valid [of example_adapter 5]
    GetLUID_copies_iff_valid [of fresh_adapter 5]
  by (simp add: example_adapter_def example_device_def fresh_adapter_def)

subsection \<open>Architecture generation\<close>

text \<open>
  Claim C1. \<open>GetArchitectureId\<close> evaluates its generation tests newest first and returns at
  the first match: with the fragment-shading-rate extension and its multiple-viewports
  capability it returns GA100 whatever older indicator extensions are supported, and it
  returns GA100 in no other case; each older generation is returned exactly when its own
  test holds and every newer test failed; GK100 is returned exactly when every test failed,
  in particular when no indicator extension is present at all.
\<close>

theorem GetArchitectureId_ladder:
  "(isVkDeviceExtensionSupported this VK_KHR_FRAGMENT_SHADING_RATE_EXTENSION_NAME
      \<and> primitiveFragmentShadingRateWithMultipleViewports
            (m_deviceFragmentShadingRateProperties this) \<noteq> 0
     \<longrightarrow> GetArchitectureId this = NV_GPU_ARCHITECTURE_GA100)
   \<and> (GetArchitectureId this = NV_GPU_ARCHITECTURE_GA100 \<longleftrightarrow>
        isVkDeviceExtensionSupported this VK_KHR_FRAGMENT_SHADING_RATE_EXTENSION_NAME
        \<and> primitiveFragmentShadingRateWithMultipleViewports
              (m_deviceFragmentShadingRateProperties this) \<noteq> 0)
   \<and> (GetArchitectureId this = NV_GPU_ARCHITECTURE_TU100 \<longleftrightarrow>
        \<not> (isVkDeviceExtensionSupported this VK_KHR_FRAGMENT_SHADING_RATE_EXTENSION_NAME
            \<and> primitiveFragmentShadingRateWithMultipleViewports
                  (m_deviceFragmentShadingRateProperties this) \<noteq> 0)
        \<and> isVkDeviceExtensionSupported this VK_NV_SHADING_RATE_IMAGE_EXTENSION_NAME)
   \<and> (GetArchitectureId this = NV_GPU_ARCHITECTURE_GV100 \<longleftrightarrow>
        \<not> (isVkDeviceExtensionSupported this VK_KHR_FRAGMENT_SHADING_RATE_EXTENSION_NAME
            \<and> primitiveFragmentShadingRateWithMultipleViewports
                  (m_deviceFragmentShadingRateProperties this) \<noteq> 0)
        \<and> \<not> isVkDeviceExtensionSupported this VK_NV_SHADING_RATE_IMAGE_EXTENSION_NAME
        \<and> isVkDeviceExtensionSupported this VK_NVX_IMAGE_VIEW_HANDLE_EXTENSION_NAME)
   \<and> (GetArchitectureId this = NV_GPU_ARCHITECTURE_GP100 \<longleftrightarrow>
        \<not> (isVkDeviceExtensionSupported this VK_KHR_FRAGMENT_SHADING_RATE_EXTENSION_NAME
            \<and> primitiveFragmentShadingRateWithMultipleViewports
                  (m_deviceFragmentShadingRateProperties this) \<noteq> 0)
        \<and> \<not> isVkDeviceExtensionSupported this VK_NV_SHADING_RATE_IMAGE_EXTENSION_NAME
        \<and> \<not> isVkDeviceExtensionSupported this VK_NVX_IMAGE_VIEW_HANDLE_EXTENSION_NAME
        \<and> isVkDeviceExtensionSupported this VK_NV_CLIP_SPACE_W_SCALING_EXTENSION_NAME)
   \<and> (GetArchitectureId this = NV_GPU_ARCHITECTURE_GM200 \<longleftrightarrow>
        \<not> (isVkDeviceExtensionSupported this VK_KHR_FRAGMENT_SHADING_RATE_EXTENSION_NAME
            \<and> primitiveFragmentShadingRateWithMultipleViewports
                  (m_deviceFragmentShadingRateProperties this) \<noteq> 0)
        \<and> \<not> isVkDeviceExtensionSupported this VK_NV_SHADING_RATE_IMAGE_EXTENSION_NAME
        \<and> \<not> isVkDeviceExtensionSupported this VK_NVX_IMAGE_VIEW_HANDLE_EXTENSION_NAME
        \<and> \<not> isVkDeviceExtensionSupported this VK_NV_CLIP_SPACE_W_SCALING_EXTENSION_NAME
        \<and> isVkDeviceExtensionSupported this VK_NV_VIEWPORT_ARRAY2_EXTENSION_NAME)
   \<and> (GetArchitectureId this = NV_GPU_ARCHITECTURE_GK100 \<longleftrightarrow>
        \<not> (isVkDeviceExtensionSupported this VK_KHR_FRAGMENT_SHADING_RATE_EXTENSION_NAME
            \<and> primitiveFragmentShadingRateWithMultipleViewports
                  (m_deviceFragmentShadingRateProperties this) \<noteq> 0)
        \<and> \<not> isVkDeviceExtensionSupported this VK_NV_SHADING_RATE_IMAGE_EXTENSION_NAME
        \<and> \<not> isVkDeviceExtensionSupported this VK_NVX_IMAGE_VIEW_HANDLE_EXTENSION_NAME
        \<and> \<not> isVkDeviceExtensionSupported this VK_NV_CLIP_SPACE_W_SCALING_EXTENSION_NAME
        \<and> \<not> isVkDeviceExtensionSupported this VK_NV_VIEWPORT_ARRAY2_EXTENSION_NAME)
   \<and> (\<not> isVkDeviceExtensionSupported this VK_KHR_FRAGMENT_SHADING_RATE_EXTENSION_NAME
        \<and> \<not> isVkDeviceExtensionSupported this VK_NV_SHADING_RATE_IMAGE_EXTENSION_NAME
        \<and> \<not> isVkDeviceExtensionSupported this VK_NVX_IMAGE_VIEW_HANDLE_EXTENSION_NAME
        \<and> \<not> isVkDeviceExtensionSupported this VK_NV_CLIP_SPACE_W_SCALING_EXTENSION_NAME
        \<and> \<not> isVkDeviceExtensionSupported this VK_NV_VIEWPORT_ARRAY2_EXTENSION_NAME
     \<longrightarrow> GetArchitectureId this = NV_GPU_ARCHITECTURE_GK100)"
  by (simp add: GetArchitectureId_def)

lemmas extension_names =
  VK_KHR_FRAGMENT_SHADING_RATE_EXTENSION_NAME_def VK_NV_SHADING_RATE_IMAGE_EXTENSION_NAME_def
  VK_NVX_IMAGE_VIEW_HANDLE_EXTENSION_NAME_def VK_NV_CLIP_SPACE_W_SCALING_EXTENSION_NAME_def
  VK_NV_VIEWPORT_ARRAY2_EXTENSION_NAME_def VK_EXT_PCI_BUS_INFO_EXTENSION_NAME_def
  VK_KHR_DRIVER_PROPERTIES_EXTENSION_NAME_def

text \<open>An object with all five indicators and the capability set; the example object (clip
  space and viewport array only: Pascal); an object with no extension; an object with the
  fragment-shading-rate extension but without its capability and with no other indicator,
  and the same with the Turing indicator.\<close>

theorem GetArchitectureId_ladder_witness:
  "GetArchitectureId
     (example_adapter\<lparr>m_deviceExtensions :=
          {''VK_KHR_fragment_shading_rate'', ''VK_NV_shading_rate_image'',
           ''VK_NVX_image_view_handle'', ''VK_NV_clip_space_w_scaling'',
           ''VK_NV_viewport_array2''},
        m_deviceFragmentShadingRateProperties :=
          \<lparr>primitiveFragmentShadingRateWithMultipleViewports = 1\<rparr>\<rparr>)
     = NV_GPU_ARCHITECTURE_GA100
   \<and> GetArchitectureId example_adapter = NV_GPU_ARCHITECTURE_GP100
   \<and> GetArchitectureId fresh_adapter = NV_GPU_ARCHITECTURE_GK100
   \<and> GetArchitectureId
       (fresh_adapter\<lparr>m_deviceExtensions := {''VK_KHR_fragment_shading_rate''}\<rparr>)
       = NV_GPU_ARCHITECTURE_GK100
   \<and> GetArchitectureId
       (fresh_adapter\<lparr>m_deviceExtensions :=
          {''VK_KHR_fragment_shading_rate'', ''VK_NV_shading_rate_image''}\<rparr>)
       = NV_GPU_ARCHITECTURE_TU100"
  using GetArchitectureId_ladder
      [of "fresh_adapter\<lparr>m_deviceExtensions := {''VK_KHR_fragment_shading_rate''}\<rparr>"]
    GetArchitectureId_ladder
      [of "fresh_adapter\<lparr>m_deviceExtensions :=
          {''VK_KHR_fragment_shading_rate'', ''VK_NV_shading_rate_image''}\<rparr>"]
    GetArchitectureId_ladder [of "example_adapter\<lparr>m_deviceExtensions :=
          {''VK_KHR_fragment_shading_rate'', ''VK_NV_shading_rate_image'',
           ''VK_NVX_image_view_handle'', ''VK_NV_clip_space_w_scaling'',
           ''VK_NV_viewport_array2''},
        m_deviceFragmentShadingRateProperties :=
          \<lparr>primitiveFragmentShadingRateWithMultipleViewports = 1\<rparr>\<rparr>"]
    GetArchitectureId_ladder [of example_adapter] GetArchitectureId_ladder [of fresh_adapter]
  by (simp add: isVkDeviceExtensionSupported_def example_adapter_def fresh_adapter_def
      extension_names)

subsection \<open>Driver version accessor\<close>

lemma VK_VERSION_MAJOR_bound: "unat (VK_VERSION_MAJOR v) < 1024"
proof -
  have "unat v < 2 ^ 32" using unsigned_less [of v] by simp
  then have "unat v div 2 ^ 22 < 1024" by simp
  then show ?thesis by (simp add: VK_VERSION_MAJOR_def drop_bit_eq_div unat_div)
qed

lemma unat_min_u32: "unat (min (a::u32) b) = min (unat a) (unat b)"
  by (simp add: min_def word_le_nat_alt)

text \<open>
  Claim C3. \<open>GetDriverVersion\<close> returns the driver-version override when it is set
  (non-zero), and otherwise \<open>major * 100 + min (minor, 99)\<close> of the normalized driver
  version. The sum is stated on natural numbers: it never wraps, and the minor component
  adds at most 99.
\<close>

theorem GetDriverVersion_override_or_computed:
  "(m_driverVersionOverride this \<noteq> 0 \<longrightarrow> GetDriverVersion this = m_driverVersionOverride this)
   \<and> (m_driverVersionOverride this = 0 \<longrightarrow>
        unat (GetDriverVersion this) =
          unat (VK_VERSION_MAJOR (m_vkDriverVersion this)) * 100
          + min (unat (VK_VERSION_MINOR (m_vkDriverVersion this))) 99
        \<and> unat (GetDriverVersion this)
            \<le> unat (VK_VERSION_MAJOR (m_vkDriverVersion this)) * 100 + 99)"
proof -
  let ?v = "m_vkDriverVersion this"
  have m: "unat (VK_VERSION_MAJOR ?v) < 1024" by (rule VK_VERSION_MAJOR_bound)
  have n: "unat (min (VK_VERSION_MINOR ?v) 99) = min (unat (VK_VERSION_MINOR ?v)) 99"
    by (simp add: unat_min_u32)
  have "unat (VK_VERSION_MAJOR ?v * 100 + min (VK_VERSION_MINOR ?v) 99)
        = (unat (VK_VERSION_MAJOR ?v) * 100 + min (unat (VK_VERSION_MINOR ?v)) 99) mod 2 ^ 32"
    by (simp add: unat_word_ariths n mod_simps)
  also have "\<dots> = unat (VK_VERSION_MAJOR ?v) * 100 + min (unat (VK_VERSION_MINOR ?v)) 99"
    using m by simp
  finally show ?thesis by (simp add: GetDriverVersion_def word_gt_0)
qed

text \<open>An override of 47141; the example object (455.89, no override); a version whose minor
  field is 679.\<close>

theorem GetDriverVersion_override_or_computed_witness:
  "GetDriverVersion (example_adapter\<lparr>m_driverVersionOverride := 47141\<rparr>) = 47141
   \<and> unat (GetDriverVersion example_adapter) = 45589
   \<and> unat (GetDriverVersion (example_adapter\<lparr>m_vkDriverVersion := VK_MAKE_VERSION 1 679 0\<rparr>))
       = 199"
  using GetDriverVersion_override_or_computed [of "example_adapter\<lparr>m_driverVersionOverride := 47141\<rparr>"]
    GetDriverVersion_override_or_computed [of example_adapter]
    GetDriverVersion_override_or_computed
      [of "example_adapter\<lparr>m_vkDriverVersion := VK_MAKE_VERSION 1 679 0\<rparr>"]
  by (simp add: example_adapter_def VK_VERSION_MAJOR_def VK_VERSION_MINOR_def VK_MAKE_VERSION_def)

subsection \<open>VRAM size\<close>

lemma GetVRamSize_loop_find:
  "GetVRamSize_loop mp i =
     (case find (\<lambda>h. flags h AND VK_MEMORY_HEAP_DEVICE_LOCAL_BIT \<noteq> 0) (drop i (memoryHeaps mp)) of
        None \<Rightarrow> 0
      | Some h \<Rightarrow> ucast (size_heap h div 1024))"
proof (induction mp i rule: GetVRamSize_loop.induct)
  case (1 mp i)
  show ?case
  proof (cases "i < length (memoryHeaps mp)")
    case True
    then have d: "drop i (memoryHeaps mp) = memoryHeaps mp ! i # drop (i + 1) (memoryHeaps mp)"
      by (simp add: Cons_nth_drop_Suc)
    show ?thesis
    proof (cases "flags (memoryHeaps mp ! i) AND VK_MEMORY_HEAP_DEVICE_LOCAL_BIT \<noteq> 0")
      case True
      with \<open>i < length (memoryHeaps mp)\<close> d show ?thesis
        by (subst GetVRamSize_loop.simps) (simp add: memoryHeapCount_def)
    next
      case False
      with \<open>i < length (memoryHeaps mp)\<close> d "1.IH" [of "memoryHeaps mp ! i"] show ?thesis
        by (subst GetVRamSize_loop.simps) (simp add: memoryHeapCount_def)
    qed
  next
    case False
    then show ?thesis
      by (subst GetVRamSize_loop.simps) (simp add: memoryHeapCount_def)
  qed
qed

lemma GetVRamSize_find:
  "GetVRamSize this =
     (case find (\<lambda>h. flags h AND VK_MEMORY_HEAP_DEVICE_LOCAL_BIT \<noteq> 0)
             (memoryHeaps (m_memoryProperties this)) of
        None \<Rightarrow> 0
      | Some h \<Rightarrow> ucast (size_heap h div 1024))"
  by (simp add: GetVRamSize_def GetVRamSize_loop_find)

lemma unat_kibibytes: "unat (ucast ((s::u64) div 1024) :: u32) = (unat s div 1024) mod 2 ^ 32"
  by (simp add: unsigned_ucast_eq take_bit_eq_mod unat_div)

text \<open>
  Claim C5, as stated: \<open>GetVRamSize\<close> returns the size of the first device-local heap divided
  by 1024. The function returns 32 bits while a heap size has 64: for a single device-local
  heap of \<open>2^42\<close> bytes (4 TiB) the quotient is \<open>2^32\<close> and the function returns 0.
\<close>

theorem GetVRamSize_exact_counterexample:
  "unat (GetVRamSize (example_adapter\<lparr>m_memoryProperties :=
           \<lparr>memoryHeaps = [\<lparr>size_heap = 4398046511104, flags = 1\<rparr>]\<rparr>\<rparr>)) = 0
   \<and> unat (4398046511104 :: u64) div 1024 = 4294967296"
  by (simp add: GetVRamSize_find VK_MEMORY_HEAP_DEVICE_LOCAL_BIT_def)

text \<open>
  Claim C5, amended. For every memory-heap list of the snapshot, \<open>GetVRamSize\<close> returns the
  size of the first heap (in index order) whose flags include the device-local bit, divided
  by 1024 and reduced modulo \<open>2^32\<close>; that is the quotient itself whenever the heap is
  smaller than \<open>2^42\<close> bytes. It returns 0 when no heap is device-local.
\<close>

theorem GetVRamSize_first_device_local:
  "(i < length (memoryHeaps (m_memoryProperties this))
      \<and> flags (memoryHeaps (m_memoryProperties this) ! i) AND VK_MEMORY_HEAP_DEVICE_LOCAL_BIT \<noteq> 0
      \<and> (\<forall>j<i. flags (memoryHeaps (m_memoryProperties this) ! j)
                   AND VK_MEMORY_HEAP_DEVICE_LOCAL_BIT = 0)
    \<longrightarrow> unat (GetVRamSize this)
          = (unat (size_heap (memoryHeaps (m_memoryProperties this) ! i)) div 1024) mod 2 ^ 32
        \<and> (unat (size_heap (memoryHeaps (m_memoryProperties this) ! i)) < 2 ^ 42
            \<longrightarrow> unat (GetVRamSize this)
                  = unat (size_heap (memoryHeaps (m_memoryProperties this) ! i)) div 1024))
   \<and> ((\<forall>h \<in> set (memoryHeaps (m_memoryProperties this)).
          flags h AND VK_MEMORY_HEAP_DEVICE_LOCAL_BIT = 0)
      \<longrightarrow> GetVRamSize this = 0)"
proof -
  let ?hs = "memoryHeaps (m_memoryProperties this)"
  let ?P = "\<lambda>h. flags h AND VK_MEMORY_HEAP_DEVICE_LOCAL_BIT \<noteq> 0"
  have none: "GetVRamSize this = 0"
    if "\<forall>h \<in> set ?hs. flags h AND VK_MEMORY_HEAP_DEVICE_LOCAL_BIT = 0"
  proof -
    from that have "find ?P ?hs = None" by (simp add: find_None_iff)
    then show ?thesis by (simp add: GetVRamSize_find)
  qed
  have some: "unat (GetVRamSize this) = (unat (size_heap (?hs ! i)) div 1024) mod 2 ^ 32"
    if "i < length ?hs" "?P (?hs ! i)"
       "\<forall>j<i. flags (?hs ! j) AND VK_MEMORY_HEAP_DEVICE_LOCAL_BIT = 0"
  proof -
    from that have "find ?P ?hs = Some (?hs ! i)"
      by (auto simp add: find_Some_iff)
    then show ?thesis by (simp add: GetVRamSize_find unat_kibibytes)
  qed
  have small: "(unat s div 1024) mod 2 ^ 32 = unat s div 1024" if "unat s < 2 ^ 42" for s :: u64
  proof -
    from that have "unat s div 1024 < 2 ^ 32" by simp
    then show ?thesis by simp
  qed
  show ?thesis using none some small by (auto simp del: mod_less)
qed

text \<open>The three heaps of the example, only the second device-local with 8589934592 bytes:
  8388608. The object with no heap: 0.\<close>

theorem GetVRamSize_first_device_local_witness:
  "unat (GetVRamSize example_adapter) = 8388608 \<and> GetVRamSize fresh_adapter = 0"
proof -
  have hs: "memoryHeaps (m_memoryProperties example_adapter) = example_heaps"
    by (simp add: example_adapter_def example_device_def)
  have "unat (GetVRamSize example_adapter) = unat (size_heap (example_heaps ! 1)) div 1024"
    using GetVRamSize_first_device_local [of 1 example_adapter] unfolding hs
    by (simp add: example_heaps_def VK_MEMORY_HEAP_DEVICE_LOCAL_BIT_def)
  moreover have "GetVRamSize fresh_adapter = 0"
    using GetVRamSize_first_device_local [of 0 fresh_adapter]
    by (simp add: fresh_adapter_def)
  ultimately show ?thesis by (simp add: example_heaps_def)
qed

subsection \<open>The paths through \<open>Initialize\<close>\<close>

lemma EnumOutputs_loop_closed:
  "EnumOutputs_loop w i outs = outs @ map NvapiOutput (drop i (w_outputs w))"
proof (induction w i outs rule: EnumOutputs_loop.induct)
  case (1 w i outs)
  show ?case
  proof (cases "i < length (w_outputs w)")
    case True
    then have d: "drop i (w_outputs w) = w_outputs w ! i # drop (i + 1) (w_outputs w)"
      by (simp add: Cons_nth_drop_Suc)
    from True have e: "EnumOutputs w i = Some (w_outputs w ! i)" by (simp add: EnumOutputs_def)
    show ?thesis
      using "1.IH" [OF e] d e by (subst EnumOutputs_loop.simps) simp
  next
    case False
    then show ?thesis
      by (subst EnumOutputs_loop.simps) (simp add: EnumOutputs_def)
  qed
qed

lemma Initialize_queries_succeed:
  "queries_succeed w \<Longrightarrow>
   Initialize w this outputs0 = Initialize_finish w (snapshot w this) outputs0"
  by (simp add: Initialize_def queries_succeed_def Let_def snapshot_def)

lemma Initialize_finish_outputs:
  "outputs (Initialize_finish w a outputs0) = outputs0 @ map NvapiOutput (w_outputs w)"
  by (simp add: Initialize_finish_def Let_def EnumOutputs_loop_closed split: sum.splits prod.splits)

lemma Initialize_finish_outcome:
  "outcome (Initialize_finish w a outputs0) \<noteq> Returned False
   \<and> outcome (Initialize_finish w a outputs0) \<noteq> NullCall"
  by (simp add: Initialize_finish_def Let_def split: sum.splits prod.splits)

lemmas override_defs = override_deviceId_def override_subsystemId_def override_driverVersion_def

lemma Initialize_finish_snapshot:
  "m_deviceProperties (adapter (Initialize_finish w a outputs0)) = m_deviceProperties a
   \<and> m_deviceDriverProperties (adapter (Initialize_finish w a outputs0)) = m_deviceDriverProperties a
   \<and> m_vkDriverVersion (adapter (Initialize_finish w a outputs0))
       = m_vkDriverVersion (normalize_driver_version a)"
  by (simp add: Initialize_finish_def override_defs Let_def normalize_driver_version_def
      split: sum.splits prod.splits)

lemma Initialize_finish_deviceIdOverride:
  "outcome (Initialize_finish w a outputs0) = Returned True \<Longrightarrow>
   m_deviceIdOverride (adapter (Initialize_finish w a outputs0)) =
     (if w_getEnvVariable w deviceIdEnvName = [] then m_deviceIdOverride a
      else (case stoul (w_getEnvVariable w deviceIdEnvName) of Inr v \<Rightarrow> v | Inl e \<Rightarrow> 0))"
  by (auto simp add: Initialize_finish_def override_defs Let_def normalize_driver_version_def
      split: sum.splits prod.splits if_splits)

lemma Initialize_finish_deviceIdOverride_unset:
  "w_getEnvVariable w deviceIdEnvName = [] \<Longrightarrow>
   m_deviceIdOverride (adapter (Initialize_finish w a outputs0)) = m_deviceIdOverride a"
  by (auto simp add: Initialize_finish_def override_defs Let_def normalize_driver_version_def
      split: sum.splits prod.splits if_splits)

lemma snapshot_fields:
  "m_deviceIdOverride (snapshot w this) = m_deviceIdOverride this
   \<and> m_deviceProperties (snapshot w this) = dev_properties (w_device w)"
  by (simp add: snapshot_def query_properties_def Let_def)

lemma Initialize_deviceIdOverride_unset:
  "w_getEnvVariable w deviceIdEnvName = [] \<Longrightarrow>
   m_deviceIdOverride (adapter (Initialize w this outputs0)) = m_deviceIdOverride this"
proof (cases "queries_succeed w")
  case True
  assume "w_getEnvVariable w deviceIdEnvName = []"
  with True show ?thesis
    by (simp add: Initialize_queries_succeed Initialize_finish_deviceIdOverride_unset snapshot_fields)
next
  case False
  then show ?thesis
    by (auto simp add: Initialize_def queries_succeed_def Let_def query_properties_def)
qed

lemma Initialize_Returned_True:
  "outcome (Initialize w this outputs0) = Returned True \<Longrightarrow> queries_succeed w"
  by (auto simp add: Initialize_def queries_succeed_def Let_def split: if_splits)

lemma Initialize_Returned_False_iff:
  "outcome (Initialize w this outputs0) = Returned False \<longleftrightarrow>
     FAILED (w_QueryInterface w)
     \<or> \<not> w_LoadLibraryA w
     \<or> (w_GetProcAddress w ''vkEnumerateDeviceExtensionProperties''
         \<and> (w_enumerateCountResult w \<noteq> VK_SUCCESS \<or> w_enumerateResult w \<noteq> VK_SUCCESS))"
  by (auto simp add: Initialize_def Let_def Initialize_finish_outcome split: if_splits)

lemma Initialize_Returned_False_outputs:
  "outcome (Initialize w this outputs0) = Returned False \<Longrightarrow> outputs (Initialize w this outputs0) = outputs0"
  by (auto simp add: Initialize_def Let_def Initialize_finish_outcome split: if_splits)

lemma VK_mask_10: "(0x3ff :: u32) = mask 10"
  by (simp add: mask_eq_exp_minus_1)

lemma VK_mask_12: "(0xfff :: u32) = mask 12"
  by (simp add: mask_eq_exp_minus_1)

lemmas version_macros =
  VK_MAKE_VERSION_def VK_VERSION_MAJOR_def VK_VERSION_MINOR_def VK_VERSION_PATCH_def

lemma repacked_major:
  "VK_VERSION_MAJOR (VK_MAKE_VERSION (VK_VERSION_MAJOR v) (drop_bit 2 (VK_VERSION_MINOR v))
       (drop_bit 4 (VK_VERSION_PATCH (drop_bit 2 v)))) = VK_VERSION_MAJOR v"
  unfolding version_macros VK_mask_10 VK_mask_12
  by (rule bit_word_eqI) (auto simp add: bit_simps dest: bit_imp_le_length)

lemma repacked_minor:
  "VK_VERSION_MINOR (VK_MAKE_VERSION (VK_VERSION_MAJOR v) (drop_bit 2 (VK_VERSION_MINOR v))
       (drop_bit 4 (VK_VERSION_PATCH (drop_bit 2 v)))) = drop_bit 2 (VK_VERSION_MINOR v)"
  unfolding version_macros VK_mask_10 VK_mask_12
  by (rule bit_word_eqI) (auto simp add: bit_simps)

lemma repacked_patch:
  "VK_VERSION_PATCH (VK_MAKE_VERSION (VK_VERSION_MAJOR v) (drop_bit 2 (VK_VERSION_MINOR v))
       (drop_bit 4 (VK_VERSION_PATCH (drop_bit 2 v))))
     = drop_bit 4 (VK_VERSION_PATCH (drop_bit 2 v))"
  unfolding version_macros VK_mask_10 VK_mask_12
  by (rule bit_word_eqI) (auto simp add: bit_simps)

lemma queries_succeed_example: "queries_succeed example_world"
  by (simp add: queries_succeed_def example_world_def FAILED_def VK_SUCCESS_def)

lemma snapshot_example:
  "normalize_driver_version (snapshot example_world fresh_adapter) = example_adapter"
  by (simp add: normalize_driver_version_def snapshot_def query_properties_def Let_def
      isVkDeviceExtensionSupported_def extension_names example_world_def fresh_adapter_def
      example_adapter_def example_device_def GetDriverId_def VK_DRIVER_ID_NVIDIA_PROPRIETARY_def
      version_macros insert_commute)

subsection \<open>Driver version normalization\<close>

text \<open>
  Claim C2. During initialization (every call before line 105 having succeeded), when the
  snapshot's driver identifier is the NVIDIA proprietary one the raw driver version is
  re-packed with major = generic major, minor = generic minor shifted right by 2, patch =
  generic patch of the raw value shifted right by 2, then shifted right by 4, and the generic
  split of the stored value gives back exactly these three components; for every other
  driver identifier the raw version is stored unchanged; and there is a raw version on which
  the two decodings differ.
\<close>

theorem Initialize_normalizes_driver_version:
  assumes "queries_succeed w"
  shows "driverVersion (m_deviceProperties (adapter (Initialize w this outputs0)))
           = driverVersion (dev_properties (w_device w))
     \<and> (GetDriverId (adapter (Initialize w this outputs0)) = VK_DRIVER_ID_NVIDIA_PROPRIETARY \<longrightarrow>
          m_vkDriverVersion (adapter (Initialize w this outputs0))
            = VK_MAKE_VERSION
                (VK_VERSION_MAJOR (driverVersion (dev_properties (w_device w))))
                (drop_bit 2 (VK_VERSION_MINOR (driverVersion (dev_properties (w_device w)))))
                (drop_bit 4 (VK_VERSION_PATCH (drop_bit 2 (driverVersion (dev_properties (w_device w))))))
          \<and> VK_VERSION_MAJOR (m_vkDriverVersion (adapter (Initialize w this outputs0)))
              = VK_VERSION_MAJOR (driverVersion (dev_properties (w_device w)))
          \<and> VK_VERSION_MINOR (m_vkDriverVersion (adapter (Initialize w this outputs0)))
              = drop_bit 2 (VK_VERSION_MINOR (driverVersion (dev_properties (w_device w))))
          \<and> VK_VERSION_PATCH (m_vkDriverVersion (adapter (Initialize w this outputs0)))
              = drop_bit 4 (VK_VERSION_PATCH (drop_bit 2 (driverVersion (dev_properties (w_device w))))))
     \<and> (GetDriverId (adapter (Initialize w this outputs0)) \<noteq> VK_DRIVER_ID_NVIDIA_PROPRIETARY \<longrightarrow>
          m_vkDriverVersion (adapter (Initialize w this outputs0))
            = driverVersion (dev_properties (w_device w)))
     \<and> (\<exists>v. VK_MAKE_VERSION (VK_VERSION_MAJOR v) (drop_bit 2 (VK_VERSION_MINOR v))
                (drop_bit 4 (VK_VERSION_PATCH (drop_bit 2 v))) \<noteq> v
              \<and> (drop_bit 2 (VK_VERSION_MINOR v) \<noteq> VK_VERSION_MINOR v
                  \<or> drop_bit 4 (VK_VERSION_PATCH (drop_bit 2 v)) \<noteq> VK_VERSION_PATCH v))"
proof -
  let ?a = "adapter (Initialize w this outputs0)"
  let ?raw = "driverVersion (dev_properties (w_device w))"
  let ?s = "snapshot w this"
  have a: "Initialize w this outputs0 = Initialize_finish w ?s outputs0"
    using assms by (rule Initialize_queries_succeed)
  have p: "m_deviceProperties ?a = dev_properties (w_device w)"
    by (simp add: a Initialize_finish_snapshot snapshot_fields)
  have d: "GetDriverId ?a = GetDriverId ?s"
    by (simp add: a GetDriverId_def Initialize_finish_snapshot)
  have v: "m_vkDriverVersion ?a = m_vkDriverVersion (normalize_driver_version ?s)"
    by (simp add: a Initialize_finish_snapshot)
  have nv: "m_vkDriverVersion ?a = VK_MAKE_VERSION (VK_VERSION_MAJOR ?raw)
              (drop_bit 2 (VK_VERSION_MINOR ?raw)) (drop_bit 4 (VK_VERSION_PATCH (drop_bit 2 ?raw)))"
    if "GetDriverId ?a = VK_DRIVER_ID_NVIDIA_PROPRIETARY"
    using that by (simp add: v d normalize_driver_version_def snapshot_fields)
  have other: "m_vkDriverVersion ?a = ?raw"
    if "GetDriverId ?a \<noteq> VK_DRIVER_ID_NVIDIA_PROPRIETARY"
    using that by (simp add: v d normalize_driver_version_def snapshot_fields)
  have ex: "\<exists>v. VK_MAKE_VERSION (VK_VERSION_MAJOR v) (drop_bit 2 (VK_VERSION_MINOR v))
                (drop_bit 4 (VK_VERSION_PATCH (drop_bit 2 v))) \<noteq> v
              \<and> (drop_bit 2 (VK_VERSION_MINOR v) \<noteq> VK_VERSION_MINOR v
                  \<or> drop_bit 4 (VK_VERSION_PATCH (drop_bit 2 v)) \<noteq> VK_VERSION_PATCH v)"
    by (rule exI [of _ "0x1B6A7000"]) (simp add: version_macros)
  show ?thesis
    using p nv other ex by (simp add: repacked_major repacked_minor repacked_patch)
qed

text \<open>The example world (NVIDIA proprietary driver, raw version 455.89 in the NVIDIA
  packing) and the same world with no extension reported, where the driver identifier
  stays 0.\<close>

theorem Initialize_normalizes_driver_version_witness:
  "queries_succeed example_world
   \<and> GetDriverId (adapter (Initialize example_world fresh_adapter [])) = VK_DRIVER_ID_NVIDIA_PROPRIETARY
   \<and> m_vkDriverVersion (adapter (Initialize example_world fresh_adapter [])) = VK_MAKE_VERSION 455 89 0
   \<and> queries_succeed (example_world\<lparr>w_extensions := []\<rparr>)
   \<and> GetDriverId (adapter (Initialize (example_world\<lparr>w_extensions := []\<rparr>) fresh_adapter [])) = 0
   \<and> m_vkDriverVersion (adapter (Initialize (example_world\<lparr>w_extensions := []\<rparr>) fresh_adapter []))
       = 1909866496"
proof -
  have q1: "queries_succeed example_world" by (rule queries_succeed_example)
  have q2: "queries_succeed (example_world\<lparr>w_extensions := []\<rparr>)"
    by (simp add: queries_succeed_def example_world_def FAILED_def VK_SUCCESS_def)
  have d1: "GetDriverId (adapter (Initialize example_world fresh_adapter [])) = 4"
  proof -
    have "GetDriverId (adapter (Initialize example_world fresh_adapter []))
          = GetDriverId (snapshot example_world fresh_adapter)"
      by (simp only: Initialize_queries_succeed [OF q1] GetDriverId_def Initialize_finish_snapshot)
    also have "\<dots> = 4"
      by (simp add: GetDriverId_def snapshot_def query_properties_def Let_def
          isVkDeviceExtensionSupported_def extension_names example_world_def example_device_def
          fresh_adapter_def)
    finally show ?thesis .
  qed
  have d2: "GetDriverId (adapter (Initialize (example_world\<lparr>w_extensions := []\<rparr>) fresh_adapter [])) = 0"
  proof -
    have "GetDriverId (adapter (Initialize (example_world\<lparr>w_extensions := []\<rparr>) fresh_adapter []))
          = GetDriverId (snapshot (example_world\<lparr>w_extensions := []\<rparr>) fresh_adapter)"
      by (simp only: Initialize_queries_succeed [OF q2] GetDriverId_def Initialize_finish_snapshot)
    also have "\<dots> = 0"
      by (simp add: GetDriverId_def snapshot_def query_properties_def Let_def
          isVkDeviceExtensionSupported_def extension_names example_world_def example_device_def
          fresh_adapter_def)
    finally show ?thesis .
  qed
  show ?thesis
    using Initialize_normalizes_driver_version [OF q1, of fresh_adapter "[]"]
      Initialize_normalizes_driver_version [OF q2, of fresh_adapter "[]"] q1 q2 d1 d2
    by (simp add: VK_DRIVER_ID_NVIDIA_PROPRIETARY_def example_world_def example_device_def
        version_macros)
qed

subsection \<open>The override variables\<close>

lemma Initialize_finish_outcome_cases:
  "outcome (Initialize_finish w a outputs0) =
     (case (if w_getEnvVariable w deviceIdEnvName = [] then Inr 0
            else stoul (w_getEnvVariable w deviceIdEnvName)) of
        Inl e \<Rightarrow> Threw e
      | Inr _ \<Rightarrow>
          (case (if w_getEnvVariable w subsystemIdEnvName = [] then Inr 0
                 else stoul (w_getEnvVariable w subsystemIdEnvName)) of
             Inl e \<Rightarrow> Threw e
           | Inr _ \<Rightarrow>
               (case (if w_getEnvVariable w driverVersionEnvName = [] then Inr 0
                      else stoul (w_getEnvVariable w driverVersionEnvName)) of
                  Inl e \<Rightarrow> Threw e
                | Inr _ \<Rightarrow> Returned True)))"
  by (simp add: Initialize_finish_def override_defs Let_def split: sum.splits prod.splits)

lemmas stoul_defs =
  stoul_def isspace_def isdigit_def decimal_value_def digit_value_def ULONG_MAX_def

lemmas env_names = deviceIdEnvName_def subsystemIdEnvName_def driverVersionEnvName_def

lemma queries_succeed_with_env: "queries_succeed (with_env w name val) = queries_succeed w"
  by (simp add: queries_succeed_def with_env_def)

lemma with_env_fields:
  "w_outputs (with_env w name val) = w_outputs w"
  "w_device (with_env w name val) = w_device w"
  "w_getEnvVariable (with_env w name val) n = (if n = name then val else w_getEnvVariable w n)"
  by (simp_all add: with_env_def)

text \<open>
  Claim C10, amended. Once \<open>Initialize\<close> has reached the override step (every earlier call
  succeeded), if any of the three override variables is set to a non-empty string on which
  \<open>std::stoul\<close> fails (no decimal digit after optional white space and sign:
  \<open>std::invalid_argument\<close>; a digit run above \<open>ULONG_MAX\<close>: \<open>std::out_of_range\<close>), then
  \<open>Initialize\<close> neither returns false nor ignores the value: the exception of the first such
  variable, in the order device id, subsystem id, driver version, leaves \<open>Initialize\<close>, after
  one output was appended for every output of the adapter.
\<close>

theorem Initialize_stoul_exception:
  assumes "queries_succeed w"
  shows "(w_getEnvVariable w deviceIdEnvName \<noteq> []
            \<and> stoul (w_getEnvVariable w deviceIdEnvName) = Inl e
          \<longrightarrow> outcome (Initialize w this outputs0) = Threw e)
     \<and> ((w_getEnvVariable w deviceIdEnvName = [] \<or> \<not> isl (stoul (w_getEnvVariable w deviceIdEnvName)))
          \<and> w_getEnvVariable w subsystemIdEnvName \<noteq> []
          \<and> stoul (w_getEnvVariable w subsystemIdEnvName) = Inl e
          \<longrightarrow> outcome (Initialize w this outputs0) = Threw e)
     \<and> ((w_getEnvVariable w deviceIdEnvName = [] \<or> \<not> isl (stoul (w_getEnvVariable w deviceIdEnvName)))
          \<and> (w_getEnvVariable w subsystemIdEnvName = []
               \<or> \<not> isl (stoul (w_getEnvVariable w subsystemIdEnvName)))
          \<and> w_getEnvVariable w driverVersionEnvName \<noteq> []
          \<and> stoul (w_getEnvVariable w driverVersionEnvName) = Inl e
          \<longrightarrow> outcome (Initialize w this outputs0) = Threw e)
     \<and> ((w_getEnvVariable w deviceIdEnvName \<noteq> [] \<and> isl (stoul (w_getEnvVariable w deviceIdEnvName)))
          \<or> (w_getEnvVariable w subsystemIdEnvName \<noteq> []
               \<and> isl (stoul (w_getEnvVariable w subsystemIdEnvName)))
          \<or> (w_getEnvVariable w driverVersionEnvName \<noteq> []
               \<and> isl (stoul (w_getEnvVariable w driverVersionEnvName)))
          \<longrightarrow> (\<exists>x. outcome (Initialize w this outputs0) = Threw x)
              \<and> outcome (Initialize w this outputs0) \<noteq> Returned False
              \<and> outcome (Initialize w this outputs0) \<noteq> Returned True
              \<and> outputs (Initialize w this outputs0) = outputs0 @ map NvapiOutput (w_outputs w))"
proof -
  have a: "Initialize w this outputs0 = Initialize_finish w (snapshot w this) outputs0"
    using assms by (rule Initialize_queries_succeed)
  show ?thesis
    unfolding a Initialize_finish_outputs Initialize_finish_outcome_cases
    by (auto split: sum.splits simp add: isl_def)
qed

text \<open>The driver-version variable set to \<open>v455.89\<close> (no digit first), and the device-id
  variable set to \<open>4294967296\<close> (one more than \<open>ULONG_MAX\<close>).\<close>

theorem Initialize_stoul_exception_witness:
  "queries_succeed (with_env example_world driverVersionEnvName ''v455.89'')
   \<and> stoul ''v455.89'' = Inl invalid_argument
   \<and> outcome (Initialize (with_env example_world driverVersionEnvName ''v455.89'') fresh_adapter [])
       = Threw invalid_argument
   \<and> outputs (Initialize (with_env example_world driverVersionEnvName ''v455.89'') fresh_adapter [])
       = [NvapiOutput 0, NvapiOutput 1]
   \<and> stoul ''4294967296'' = Inl out_of_range
   \<and> outcome (Initialize (with_env example_world deviceIdEnvName ''4294967296'') fresh_adapter [])
       = Threw out_of_range"
proof -
  let ?w1 = "with_env example_world driverVersionEnvName ''v455.89''"
  let ?w2 = "with_env example_world deviceIdEnvName ''4294967296''"
  have q1: "queries_succeed ?w1" and q2: "queries_succeed ?w2"
    by (simp_all add: queries_succeed_with_env queries_succeed_example)
  have s1: "stoul ''v455.89'' = Inl invalid_argument" by (simp add: stoul_defs)
  have s2: "stoul ''4294967296'' = Inl out_of_range" by (simp add: stoul_defs)
  have e1: "w_getEnvVariable ?w1 deviceIdEnvName = []" "w_getEnvVariable ?w1 subsystemIdEnvName = []"
      "w_getEnvVariable ?w1 driverVersionEnvName = ''v455.89''"
    by (simp_all add: with_env_fields env_names example_world_def)
  have e2: "w_getEnvVariable ?w2 deviceIdEnvName = ''4294967296''"
    by (simp add: with_env_fields)
  have o: "w_outputs ?w1 = [0, 1]" by (simp add: with_env_fields example_world_def)
  show ?thesis
    using Initialize_stoul_exception [OF q1, of invalid_argument fresh_adapter "[]"]
      Initialize_stoul_exception [OF q2, of out_of_range fresh_adapter "[]"]
    unfolding e1 e2 o s1 s2
    using q1 by simp
qed

text \<open>
  Claim C10, as stated: every non-empty string that is not an unsigned base-10 integer makes
  the conversion raise. The string \<open>12abc\<close> is not one, yet \<open>std::stoul\<close> converts its
  leading digits and leaves the rest unread: \<open>Initialize\<close> returns true with the device-id
  override set to 12.
\<close>

theorem Initialize_stoul_counterexample:
  "w_getEnvVariable (with_env example_world deviceIdEnvName ''12abc'') deviceIdEnvName = ''12abc''
   \<and> ''12abc'' \<noteq> []
   \<and> \<not> unsigned_base10_integer ''12abc''
   \<and> outcome (Initialize (with_env example_world deviceIdEnvName ''12abc'') fresh_adapter [])
       = Returned True
   \<and> m_deviceIdOverride
        (adapter (Initialize (with_env example_world deviceIdEnvName ''12abc'') fresh_adapter []))
       = 12"
proof -
  let ?w = "with_env example_world deviceIdEnvName ''12abc''"
  have q: "queries_succeed ?w"
    by (simp add: queries_succeed_with_env queries_succeed_example)
  have s: "stoul ''12abc'' = Inr 12" by (simp add: stoul_defs)
  have e: "w_getEnvVariable ?w deviceIdEnvName = ''12abc''" "w_getEnvVariable ?w subsystemIdEnvName = []"
      "w_getEnvVariable ?w driverVersionEnvName = []"
    by (simp_all add: with_env_fields env_names example_world_def)
  have a: "Initialize ?w fresh_adapter [] = Initialize_finish ?w (snapshot ?w fresh_adapter) []"
    using q by (rule Initialize_queries_succeed)
  have o: "outcome (Initialize ?w fresh_adapter []) = Returned True"
    unfolding a Initialize_finish_outcome_cases e s by simp
  have d: "m_deviceIdOverride (adapter (Initialize ?w fresh_adapter [])) = 12"
    using Initialize_finish_deviceIdOverride [OF o [unfolded a]] unfolding a e s by simp
  have n: "\<not> unsigned_base10_integer ''12abc''"
    by (simp add: unsigned_base10_integer_def isdigit_def)
  show ?thesis using e o d n by simp
qed

subsection \<open>Failure before the outputs are enumerated\<close>

text \<open>
  Claim C6. If the interop-capability query fails, \<open>Initialize\<close> returns false and the
  caller's output list is what it was; more generally \<open>Initialize\<close> returns false exactly
  when the interop query fails, the library does not load, or one of the two extension
  enumeration calls reports a status other than success, and on every such path the output
  list is unchanged.
\<close>

theorem Initialize_false_before_outputs:
  "(FAILED (w_QueryInterface w)
      \<longrightarrow> outcome (Initialize w this outputs0) = Returned False
        \<and> outputs (Initialize w this outputs0) = outputs0)
   \<and> (outcome (Initialize w this outputs0) = Returned False
      \<longrightarrow> outputs (Initialize w this outputs0) = outputs0)
   \<and> (outcome (Initialize w this outputs0) = Returned False \<longleftrightarrow>
        FAILED (w_QueryInterface w)
        \<or> \<not> w_LoadLibraryA w
        \<or> (w_GetProcAddress w ''vkEnumerateDeviceExtensionProperties''
            \<and> (w_enumerateCountResult w \<noteq> VK_SUCCESS \<or> w_enumerateResult w \<noteq> VK_SUCCESS)))"
  using Initialize_Returned_False_iff [of w this outputs0]
    Initialize_Returned_False_outputs [of w this outputs0]
  by blast

text \<open>The example world with the interop query answering \<open>E_NOINTERFACE\<close>, with the
  library missing, and with the second enumeration call answering \<open>VK_INCOMPLETE\<close>; the
  caller's list holds one entry before the call.\<close>

theorem Initialize_false_before_outputs_witness:
  "FAILED (w_QueryInterface (example_world\<lparr>w_QueryInterface := 0x80004002\<rparr>))
   \<and> outcome (Initialize (example_world\<lparr>w_QueryInterface := 0x80004002\<rparr>) fresh_adapter
                [NvapiOutput 7]) = Returned False
   \<and> outputs (Initialize (example_world\<lparr>w_QueryInterface := 0x80004002\<rparr>) fresh_adapter
                [NvapiOutput 7]) = [NvapiOutput 7]
   \<and> outcome (Initialize (example_world\<lparr>w_LoadLibraryA := False\<rparr>) fresh_adapter [NvapiOutput 7])
       = Returned False
   \<and> outputs (Initialize (example_world\<lparr>w_LoadLibraryA := False\<rparr>) fresh_adapter [NvapiOutput 7])
       = [NvapiOutput 7]
   \<and> outcome (Initialize (example_world\<lparr>w_enumerateResult := 5\<rparr>) fresh_adapter [NvapiOutput 7])
       = Returned False
   \<and> outputs (Initialize (example_world\<lparr>w_enumerateResult := 5\<rparr>) fresh_adapter [NvapiOutput 7])
       = [NvapiOutput 7]"
  using Initialize_false_before_outputs
      [of "example_world\<lparr>w_QueryInterface := 0x80004002\<rparr>" fresh_adapter "[NvapiOutput 7]"]
    Initialize_false_before_outputs
      [of "example_world\<lparr>w_LoadLibraryA := False\<rparr>" fresh_adapter "[NvapiOutput 7]"]
    Initialize_false_before_outputs
      [of "example_world\<lparr>w_enumerateResult := 5\<rparr>" fresh_adapter "[NvapiOutput 7]"]
  by (simp add: example_world_def FAILED_def VK_SUCCESS_def)

subsection \<open>A missing entry point\<close>

text \<open>
  Claim C7 says that a missing entry point makes \<open>Initialize\<close> return false, log one
  diagnostic and leave the object as it was. The source never compares a looked-up pointer
  with null. With \<open>vkEnumerateDeviceExtensionProperties\<close> missing from the library the null
  pointer is called at line 47; with \<open>vkGetPhysicalDeviceProperties2\<close> not resolved by the
  instance it is called at line 91, after the extension names were inserted into the object.
  In both runs nothing is logged and no boolean is returned.
\<close>

theorem Initialize_missing_entry_point:
  "outcome (Initialize
      (example_world\<lparr>w_GetProcAddress :=
          (\<lambda>name. name \<noteq> ''vkEnumerateDeviceExtensionProperties'')\<rparr>) fresh_adapter [])
     = NullCall
   \<and> logged (Initialize
      (example_world\<lparr>w_GetProcAddress :=
          (\<lambda>name. name \<noteq> ''vkEnumerateDeviceExtensionProperties'')\<rparr>) fresh_adapter [])
     = []
   \<and> outcome (Initialize
      (example_world\<lparr>w_vkGetInstanceProcAddr :=
          (\<lambda>name. name \<noteq> ''vkGetPhysicalDeviceProperties2'')\<rparr>) fresh_adapter [])
     = NullCall
   \<and> logged (Initialize
      (example_world\<lparr>w_vkGetInstanceProcAddr :=
          (\<lambda>name. name \<noteq> ''vkGetPhysicalDeviceProperties2'')\<rparr>) fresh_adapter [])
     = []
   \<and> m_deviceExtensions (adapter (Initialize
      (example_world\<lparr>w_vkGetInstanceProcAddr :=
          (\<lambda>name. name \<noteq> ''vkGetPhysicalDeviceProperties2'')\<rparr>) fresh_adapter []))
     \<noteq> {}"
  by (simp add: Initialize_def Let_def example_world_def FAILED_def VK_SUCCESS_def)

subsection \<open>Device identifier\<close>

lemma stoul_461377758: "stoul ''461377758'' = Inr 461377758"
  by (simp add: stoul_defs)

text \<open>
  Claim C4. \<open>GetDeviceId\<close> returns the device-id override when it is set (non-zero) and
  otherwise \<open>(deviceID << 16) + vendorID\<close> packed from the snapshot, in 32-bit arithmetic.
  After an \<open>Initialize\<close> that returned true with the variable set to \<open>461377758\<close> it
  returns 461377758 whatever the device reports; with the variable absent or empty
  \<open>Initialize\<close> leaves the override field as it was, so that an object whose override was
  zero answers with the value packed from the device's properties.
\<close>

theorem GetDeviceId_override_or_packed:
  "(m_deviceIdOverride this \<noteq> 0 \<longrightarrow> GetDeviceId this = m_deviceIdOverride this)
   \<and> (m_deviceIdOverride this = 0 \<longrightarrow>
        GetDeviceId this = push_bit 16 (deviceID (m_deviceProperties this))
                           + vendorID (m_deviceProperties this))
   \<and> (outcome (Initialize w this outputs0) = Returned True
        \<and> w_getEnvVariable w deviceIdEnvName = ''461377758''
      \<longrightarrow> GetDeviceId (adapter (Initialize w this outputs0)) = 461377758)
   \<and> (w_getEnvVariable w deviceIdEnvName = []
      \<longrightarrow> m_deviceIdOverride (adapter (Initialize w this outputs0)) = m_deviceIdOverride this)
   \<and> (outcome (Initialize w this outputs0) = Returned True
        \<and> w_getEnvVariable w deviceIdEnvName = [] \<and> m_deviceIdOverride this = 0
      \<longrightarrow> GetDeviceId (adapter (Initialize w this outputs0))
            = push_bit 16 (deviceID (dev_properties (w_device w)))
              + vendorID (dev_properties (w_device w)))"
proof -
  let ?r = "Initialize w this outputs0"
  have acc: "(m_deviceIdOverride a \<noteq> 0 \<longrightarrow> GetDeviceId a = m_deviceIdOverride a)
     \<and> (m_deviceIdOverride a = 0 \<longrightarrow>
          GetDeviceId a = push_bit 16 (deviceID (m_deviceProperties a)) + vendorID (m_deviceProperties a))"
    for a
    by (simp add: GetDeviceId_def word_gt_0)
  have set: "GetDeviceId (adapter ?r) = 461377758"
    if t: "outcome ?r = Returned True" and e: "w_getEnvVariable w deviceIdEnvName = ''461377758''"
  proof -
    from t have q: "queries_succeed w" by (rule Initialize_Returned_True)
    have a: "?r = Initialize_finish w (snapshot w this) outputs0"
      using q by (rule Initialize_queries_succeed)
    have "m_deviceIdOverride (adapter ?r) = 461377758"
      using Initialize_finish_deviceIdOverride [OF t [unfolded a]] unfolding a e stoul_461377758
      by simp
    then show ?thesis by (simp add: GetDeviceId_def word_gt_0)
  qed
  have unset: "m_deviceIdOverride (adapter ?r) = m_deviceIdOverride this"
    if "w_getEnvVariable w deviceIdEnvName = []"
    using that by (rule Initialize_deviceIdOverride_unset)
  have packed: "GetDeviceId (adapter ?r)
            = push_bit 16 (deviceID (dev_properties (w_device w))) + vendorID (dev_properties (w_device w))"
    if t: "outcome ?r = Returned True" and e: "w_getEnvVariable w deviceIdEnvName = []"
      and z: "m_deviceIdOverride this = 0"
  proof -
    from t have q: "queries_succeed w" by (rule Initialize_Returned_True)
    have a: "?r = Initialize_finish w (snapshot w this) outputs0"
      using q by (rule Initialize_queries_succeed)
    have p: "m_deviceProperties (adapter ?r) = dev_properties (w_device w)"
      by (simp add: a Initialize_finish_snapshot snapshot_fields)
    from unset [OF e] z have "m_deviceIdOverride (adapter ?r) = 0" by simp
    with acc [of "adapter ?r"] p show ?thesis by simp
  qed
  show ?thesis using acc [of this] set unset packed by blast
qed

text \<open>The second device (\<open>2204\<close> of vendor \<open>10de\<close>) with the variable set and with no
  variable; the example object with an override of 5 and with none.\<close>

theorem GetDeviceId_override_or_packed_witness:
  "outcome (Initialize (with_env (example_world\<lparr>w_device := other_device\<rparr>) deviceIdEnvName ''461377758'')
              fresh_adapter []) = Returned True
   \<and> GetDeviceId (adapter (Initialize
        (with_env (example_world\<lparr>w_device := other_device\<rparr>) deviceIdEnvName ''461377758'')
        fresh_adapter [])) = 461377758
   \<and> outcome (Initialize (example_world\<lparr>w_device := other_device\<rparr>) fresh_adapter [])
       = Returned True
   \<and> GetDeviceId (adapter (Initialize (example_world\<lparr>w_device := other_device\<rparr>) fresh_adapter []))
       = 0x220410DE
   \<and> GetDeviceId (example_adapter\<lparr>m_deviceIdOverride := 5\<rparr>) = 5
   \<and> GetDeviceId example_adapter = 461377758"
proof -
  let ?w0 = "example_world\<lparr>w_device := other_device\<rparr>"
  let ?w1 = "with_env ?w0 deviceIdEnvName ''461377758''"
  have q0: "queries_succeed ?w0"
    by (simp add: queries_succeed_def example_world_def FAILED_def VK_SUCCESS_def)
  then have q1: "queries_succeed ?w1" by (simp add: queries_succeed_with_env)
  have e1: "w_getEnvVariable ?w1 deviceIdEnvName = ''461377758''"
      "w_getEnvVariable ?w1 subsystemIdEnvName = []" "w_getEnvVariable ?w1 driverVersionEnvName = []"
    by (simp_all add: with_env_fields env_names example_world_def)
  have e0: "w_getEnvVariable ?w0 deviceIdEnvName = []"
      "w_getEnvVariable ?w0 subsystemIdEnvName = []" "w_getEnvVariable ?w0 driverVersionEnvName = []"
    by (simp_all add: example_world_def)
  have o1: "outcome (Initialize ?w1 fresh_adapter []) = Returned True"
    unfolding Initialize_queries_succeed [OF q1] Initialize_finish_outcome_cases e1 stoul_461377758
    by simp
  have o0: "outcome (Initialize ?w0 fresh_adapter []) = Returned True"
    unfolding Initialize_queries_succeed [OF q0] Initialize_finish_outcome_cases e0
    by simp
  have d: "w_device ?w0 = other_device" by simp
  have z: "m_deviceIdOverride fresh_adapter = 0" by (simp add: fresh_adapter_def)
  show ?thesis
    using GetDeviceId_override_or_packed [of fresh_adapter ?w1 "[]"]
      GetDeviceId_override_or_packed [of fresh_adapter ?w0 "[]"]
      GetDeviceId_override_or_packed [of "example_adapter\<lparr>m_deviceIdOverride := 5\<rparr>"]
      GetDeviceId_override_or_packed [of example_adapter]
    unfolding o1 o0 e1 e0 d z
    by (simp add: other_device_def example_device_def example_adapter_def)
qed

end
